theory Spec2Isabelle
  imports Complex_Main
begin

section \<open>Spin-direction refinement notebooks: data model\<close>

text \<open>
  The two notebooks are Python scripts over numpy arrays. Floating-point numbers are
  modelled as reals, a 3-vector (a numpy array of shape (3,)) as a triple, an (N,3) array
  as a list of triples, a 1-D array as a list of reals, a boolean mask as a list of bools.
\<close>

type_synonym vec3 = "real \<times> real \<times> real"

fun vsub :: "vec3 \<Rightarrow> vec3 \<Rightarrow> vec3" where
  "vsub (a, b, c) (x, y, z) = (a - x, b - y, c - z)"

fun vneg :: "vec3 \<Rightarrow> vec3" where
  "vneg (a, b, c) = (- a, - b, - c)"

text \<open>\<^verbatim>\<open>np.linalg.norm\<close> of a 1-D array: the Euclidean norm.\<close>

fun norm3 :: "vec3 \<Rightarrow> real" where
  "norm3 (a, b, c) = sqrt (a * a + b * b + c * c)"

text \<open>
  Both residual functions start with the same line:
  \<^verbatim>\<open>newsvec = np.array([np.sin(th)*np.cos(phi),np.sin(th)*np.sin(phi),np.cos(th)])\<close>
\<close>

definition newsvec :: "real \<Rightarrow> real \<Rightarrow> vec3" where
  "newsvec th phi = (sin th * cos phi, sin th * sin phi, cos th)"

text \<open>
  Python exceptions that the notebooks' own statements can raise, and \<open>LibraryError\<close>
  for a failure raised inside a library call (which the notebooks propagate untouched).
\<close>

datatype py_error = KeyError | IndexError | ValueError | LibraryError

text \<open>
  The objects of \<^verbatim>\<open>diffpy.mpdf\<close> the notebooks read and write, with the attributes
  they use: \<^verbatim>\<open>MagSpecies\<close> (basis vector, propagation vector),
  \<^verbatim>\<open>MagStructure\<close> (the dictionary of species by label, the atom positions and
  the (N,3) spin array) and \<^verbatim>\<open>MPDFcalculator\<close> (three scale parameters and the
  range of the grid). The calculator holds a reference to the structure
  (\<^verbatim>\<open>mc = MPDFcalculator(mstr)\<close>), so the calculation reads the structure of the
  notebook state.
\<close>

record mag_species =
  basisvecs :: vec3
  kvecs :: vec3

record mag_structure =
  species :: "string \<rightharpoonup> mag_species"
  atoms :: "vec3 list"
  spins :: "vec3 list"

record mpdf_calculator =
  ordScale :: real
  paraScale :: real
  dampRate :: real
  rmin :: real
  rmax :: real

text \<open>The global variables of a notebook that the residual functions close over.\<close>

record notebook =
  mstr :: mag_structure
  mc :: mpdf_calculator
  svec :: vec3
  upMask :: "bool list"
  downMask :: "bool list"

text \<open>The parameter vector \<^verbatim>\<open>oscale,pscale,damp,th,phi = p\<close>.\<close>

type_synonym params = "real \<times> real \<times> real \<times> real \<times> real"

section \<open>numpy operations\<close>

text \<open>\<^verbatim>\<open>xs[i]\<close> on a Python sequence, for a non-negative index.\<close>

definition py_index :: "'a list \<Rightarrow> nat \<Rightarrow> py_error + 'a" where
  "py_index xs i = (if i < length xs then Inr (xs ! i) else Inl IndexError)"

text \<open>
  \<^verbatim>\<open>a - b\<close> on two 1-D arrays: elementwise when the lengths agree, an array of
  length 1 is broadcast against the other, and any other pair of shapes raises.
\<close>

definition np_sub :: "real list \<Rightarrow> real list \<Rightarrow> py_error + real list" where
  "np_sub xs ys =
     (if length xs = length ys then Inr (map2 (-) xs ys)
      else if length xs = 1 then Inr (map (\<lambda>y. hd xs - y) ys)
      else if length ys = 1 then Inr (map (\<lambda>x. x - hd ys) xs)
      else Inl ValueError)"

text \<open>
  \<^verbatim>\<open>arr[mask] = v\<close> for an (N,3) array, a boolean mask and a 3-vector: every row
  whose mask entry is true becomes \<open>v\<close>; a mask of another length raises.
\<close>

definition mask_assign :: "vec3 list \<Rightarrow> bool list \<Rightarrow> vec3 \<Rightarrow> py_error + vec3 list" where
  "mask_assign arr msk v =
     (if length msk \<noteq> length arr then Inl IndexError
      else Inr (map2 (\<lambda>b x. if b then v else x) msk arr))"

section \<open>The masks\<close>

text \<open>
  \<^verbatim>\<open>upMask = (np.apply_along_axis(np.linalg.norm,1,mstr.spins-svec)<0.1)\<close>
  \<^verbatim>\<open>downMask = ~upMask\<close>
  \<^verbatim>\<open>apply_along_axis\<close> raises on an array with no rows (a \<^verbatim>\<open>ValueError\<close> in
  numpy from 1.13 on, an \<^verbatim>\<open>IndexError\<close> before), so no mask is made then.
\<close>

definition make_masks :: "vec3 list \<Rightarrow> vec3 \<Rightarrow> py_error + (bool list \<times> bool list)" where
  "make_masks sp sv =
     (if sp = [] then Inl ValueError
      else let up = map (\<lambda>x. norm3 (vsub x sv) < 0.1) sp in Inr (up, map Not up))"

definition masks_cell :: "notebook \<Rightarrow> py_error + notebook" where
  "masks_cell s =
     (case make_masks (spins (mstr s)) (svec s) of
        Inl e \<Rightarrow> Inl e
      | Inr (up, down) \<Rightarrow> Inr (s\<lparr>upMask := up, downMask := down\<rparr>))"

section \<open>The residual functions\<close>

text \<open>
  The library operations are parameters of the model: \<open>makeSpins\<close> and \<open>makeAll\<close>
  (\<^verbatim>\<open>MagStructure.makeSpins\<close>, \<^verbatim>\<open>MagStructure.makeAll\<close>) rebuild a structure
  or raise, and \<open>calc\<close> (\<^verbatim>\<open>MPDFcalculator.calc(both=True)\<close>) reads the structure and
  the calculator and returns a sequence of arrays or raises.

  A residual function returns the notebook state it leaves behind and either the
  residual array or the exception raised; assignments made before a raise persist.
\<close>

type_synonym calc_fn = "mag_structure \<Rightarrow> mpdf_calculator \<Rightarrow> py_error + real list list"
type_synonym make_fn = "mag_structure \<Rightarrow> py_error + mag_structure"

text \<open>\<^verbatim>\<open>mc.calc(both=True)[2]\<close> in a given notebook state.\<close>

definition calc_signal :: "calc_fn \<Rightarrow> notebook \<Rightarrow> py_error + real list" where
  "calc_signal calc s =
     (case calc (mstr s) (mc s) of
        Inl e \<Rightarrow> Inl e
      | Inr comps \<Rightarrow> py_index comps 2)"

text \<open>\<^verbatim>\<open>ydata - mc.calc(both=True)[2]\<close>\<close>

definition residual_value :: "calc_fn \<Rightarrow> real list \<Rightarrow> notebook \<Rightarrow> py_error + real list" where
  "residual_value calc ydata s =
     (case calc_signal calc s of
        Inl e \<Rightarrow> Inl e
      | Inr sig \<Rightarrow> np_sub ydata sig)"

text \<open>The three assignments \<^verbatim>\<open>mc.ordScale = oscale; mc.paraScale = pscale; mc.dampRate = damp\<close>.\<close>

definition set_scales :: "real \<Rightarrow> real \<Rightarrow> real \<Rightarrow> notebook \<Rightarrow> notebook" where
  "set_scales oscale pscale damp s =
     s\<lparr>mc := (mc s)\<lparr>ordScale := oscale, paraScale := pscale, dampRate := damp\<rparr>\<rparr>"

text \<open>
  The first \<^verbatim>\<open>residual\<close> of the spin-direction notebook (regeneration):
  \<^verbatim>\<open>
  def residual(p,ydata):
      oscale,pscale,damp,th,phi = p
      newsvec = np.array([...])
      mstr.species['0'].basisvecs = newsvec
      mstr.makeSpins()
      mc.ordScale = oscale
      mc.paraScale = pscale
      mc.dampRate = damp
      return ydata - mc.calc(both=True)[2]
  \<close>
\<close>

definition residual_regen ::
  "make_fn \<Rightarrow> calc_fn \<Rightarrow> params \<Rightarrow> real list \<Rightarrow> notebook \<Rightarrow> notebook \<times> (py_error + real list)" where
  "residual_regen makeSpins calc p ydata s =
     (case p of (oscale, pscale, damp, th, phi) \<Rightarrow>
        (let nv = newsvec th phi in
         (case species (mstr s) ''0'' of
            None \<Rightarrow> (s, Inl KeyError)
          | Some sp \<Rightarrow>
              (let s1 = s\<lparr>mstr := (mstr s)\<lparr>species := (species (mstr s))(''0'' \<mapsto> sp\<lparr>basisvecs := nv\<rparr>)\<rparr>\<rparr> in
               (case makeSpins (mstr s1) of
                  Inl e \<Rightarrow> (s1, Inl e)
                | Inr m \<Rightarrow>
                    (let s2 = set_scales oscale pscale damp (s1\<lparr>mstr := m\<rparr>) in
                     (s2, residual_value calc ydata s2)))))))"

text \<open>
  The second \<^verbatim>\<open>residual\<close> of the spin-direction notebook (masks):
  \<^verbatim>\<open>
  def residual(p,ydata):
      oscale,pscale,damp,th,phi = p
      newsvec = np.array([...])
      mstr.spins[upMask]=newsvec
      mstr.spins[downMask]=-newsvec
      mc.ordScale = oscale
      mc.paraScale = pscale
      mc.dampRate = damp
      return ydata - mc.calc(both=True)[2]
  \<close>
\<close>

definition residual_mask ::
  "calc_fn \<Rightarrow> params \<Rightarrow> real list \<Rightarrow> notebook \<Rightarrow> notebook \<times> (py_error + real list)" where
  "residual_mask calc p ydata s =
     (case p of (oscale, pscale, damp, th, phi) \<Rightarrow>
        (let nv = newsvec th phi in
         (case mask_assign (spins (mstr s)) (upMask s) nv of
            Inl e \<Rightarrow> (s, Inl e)
          | Inr sp1 \<Rightarrow>
              (let s1 = s\<lparr>mstr := (mstr s)\<lparr>spins := sp1\<rparr>\<rparr> in
               (case mask_assign (spins (mstr s1)) (downMask s1) (vneg nv) of
                  Inl e \<Rightarrow> (s1, Inl e)
                | Inr sp2 \<Rightarrow>
                    (let s2 = set_scales oscale pscale damp (s1\<lparr>mstr := (mstr s1)\<lparr>spins := sp2\<rparr>\<rparr>) in
                     (s2, residual_value calc ydata s2)))))))"

text \<open>
  The function of the co-refinement notebook:
  \<^verbatim>\<open>
  def mpdf(parascale, ordscale, damp):
      mc.paraScale, mc.ordScale, mc.dampRate = parascale, ordscale, damp
      mc.magstruc.makeAll()
      dr = mc.calc(both=True)[2]
      return dr
  \<close>
\<close>

definition mpdf ::
  "make_fn \<Rightarrow> calc_fn \<Rightarrow> real \<Rightarrow> real \<Rightarrow> real \<Rightarrow> notebook \<Rightarrow> notebook \<times> (py_error + real list)" where
  "mpdf makeAll calc parascale ordscale damp s =
     (let s1 = s\<lparr>mc := (mc s)\<lparr>paraScale := parascale, ordScale := ordscale, dampRate := damp\<rparr>\<rparr> in
      (case makeAll (mstr s1) of
         Inl e \<Rightarrow> (s1, Inl e)
       | Inr m \<Rightarrow> (let s2 = s1\<lparr>mstr := m\<rparr> in (s2, calc_signal calc s2))))"

section \<open>The fit\<close>

text \<open>
  \<^verbatim>\<open>p0 = [0.1,0.1,0.1,np.arccos(np.random.uniform(-1,1)),np.random.uniform(-np.pi,np.pi)]\<close>
  The two random draws are arguments: \<open>u\<close> is the value of
  \<^verbatim>\<open>np.random.uniform(-1,1)\<close> and \<open>v\<close> the value of
  \<^verbatim>\<open>np.random.uniform(-np.pi,np.pi)\<close>; \<^verbatim>\<open>uniform(low, high)\<close> returns a value of
  the half-open interval from \<open>low\<close> (included) to \<open>high\<close> (excluded).
\<close>

definition p0 :: "real \<Rightarrow> real \<Rightarrow> params" where
  "p0 u v = (0.1, 0.1, 0.1, arccos u, v)"

text \<open>\<^verbatim>\<open>bounds=[[0,0,0,0,-np.pi],[10,10,10,np.pi,np.pi]]\<close>\<close>

definition bounds :: "params \<times> params" where
  "bounds = ((0, 0, 0, 0, - pi), (10, 10, 10, pi, pi))"

text \<open>A parameter vector lies within bounds when every component does, ends included.\<close>

fun in_bounds :: "params \<Rightarrow> params \<times> params \<Rightarrow> bool" where
  "in_bounds (a, b, c, d, e) ((la, lb, lc, ld, le), (ua, ub, uc, ud, ue)) =
     (la \<le> a \<and> a \<le> ua \<and> lb \<le> b \<and> b \<le> ub \<and> lc \<le> c \<and> c \<le> uc \<and>
      ld \<le> d \<and> d \<le> ud \<and> le \<le> e \<and> e \<le> ue)"

text \<open>
  \<^verbatim>\<open>scipy.optimize.least_squares\<close> is a parameter of the model. All the notebooks rely
  on is that it calls the residual function at a sequence of points of its own choice,
  one after the other, each choice depending on the residuals seen so far, that it stops
  after finitely many calls, and that it returns a parameter vector. A solver is given by
  the point it evaluates next (or \<open>None\<close> to stop), the vector it returns, and its
  limit on the number of evaluations.
\<close>

type_synonym history = "(params \<times> real list) list"

record lsq_solver =
  next_x :: "params \<Rightarrow> params \<times> params \<Rightarrow> history \<Rightarrow> params option"
  best_x :: "params \<Rightarrow> params \<times> params \<Rightarrow> history \<Rightarrow> params"
  max_nfev :: nat

text \<open>
  The solver's loop. An exception raised by the residual function ends the loop and is
  propagated; the notebook state is threaded through the evaluations.
\<close>

fun lsq_loop ::
  "(params \<Rightarrow> notebook \<Rightarrow> notebook \<times> (py_error + real list)) \<Rightarrow> (history \<Rightarrow> params option) \<Rightarrow>
   nat \<Rightarrow> history \<Rightarrow> notebook \<Rightarrow> notebook \<times> (py_error + history)" where
  "lsq_loop f nxt 0 h s = (s, Inr h)"
| "lsq_loop f nxt (Suc n) h s =
     (case nxt h of
        None \<Rightarrow> (s, Inr h)
      | Some x \<Rightarrow>
          (case f x s of
             (s', Inl e) \<Rightarrow> (s', Inl e)
           | (s', Inr r) \<Rightarrow> lsq_loop f nxt n (h @ [(x, r)]) s'))"

definition least_squares ::
  "lsq_solver \<Rightarrow> (params \<Rightarrow> notebook \<Rightarrow> notebook \<times> (py_error + real list)) \<Rightarrow> params \<Rightarrow>
   params \<times> params \<Rightarrow> notebook \<Rightarrow> notebook \<times> (py_error + params)" where
  "least_squares solver f x0 bnds s =
     (case lsq_loop f (next_x solver x0 bnds) (max_nfev solver) [] s of
        (s', Inl e) \<Rightarrow> (s', Inl e)
      | (s', Inr h) \<Rightarrow> (s', Inr (best_x solver x0 bnds h)))"

text \<open>
  The fit, in both halves of the spin-direction notebook (\<open>d\<close> is the observed data):
  \<^verbatim>\<open>
  optimized = least_squares(residual,p0,bounds=[...],args=(d,))
  fit = mc.calc(both=True)[2]
  \<close>
  The result is the pair of \<^verbatim>\<open>optimized\<close> (its parameter vector) and \<^verbatim>\<open>fit\<close>.
\<close>

definition run_fit ::
  "lsq_solver \<Rightarrow> calc_fn \<Rightarrow> (params \<Rightarrow> notebook \<Rightarrow> notebook \<times> (py_error + real list)) \<Rightarrow>
   real \<Rightarrow> real \<Rightarrow> notebook \<Rightarrow> notebook \<times> (py_error + params \<times> real list)" where
  "run_fit solver calc f u v s =
     (case least_squares solver f (p0 u v) bounds s of
        (s', Inl e) \<Rightarrow> (s', Inl e)
      | (s', Inr optimized) \<Rightarrow>
          (case calc_signal calc s' of
             Inl e \<Rightarrow> (s', Inl e)
           | Inr fit \<Rightarrow> (s', Inr (optimized, fit))))"

definition fit_regen ::
  "lsq_solver \<Rightarrow> make_fn \<Rightarrow> calc_fn \<Rightarrow> real \<Rightarrow> real \<Rightarrow> real list \<Rightarrow> notebook \<Rightarrow>
   notebook \<times> (py_error + params \<times> real list)" where
  "fit_regen solver makeSpins calc u v d s =
     run_fit solver calc (\<lambda>p. residual_regen makeSpins calc p d) u v s"

definition fit_mask ::
  "lsq_solver \<Rightarrow> calc_fn \<Rightarrow> real \<Rightarrow> real \<Rightarrow> real list \<Rightarrow> notebook \<Rightarrow>
   notebook \<times> (py_error + params \<times> real list)" where
  "fit_mask solver calc u v d s =
     run_fit solver calc (\<lambda>p. residual_mask calc p d) u v s"

section \<open>Predicates used in the statements\<close>

text \<open>The set of site indices a mask selects.\<close>

definition mask_sites :: "bool list \<Rightarrow> nat set" where
  "mask_sites msk = {i. i < length msk \<and> msk ! i}"

text \<open>
  Two notebook states agree on everything but the stored spin values and the three
  scale parameters of the calculator: the masks, the reference vector, the species (with
  their basis and propagation vectors), the atom positions, the number of sites and the
  range of the calculator are the same.
\<close>

definition same_frame :: "notebook \<Rightarrow> notebook \<Rightarrow> bool" where
  "same_frame s s' \<longleftrightarrow>
     upMask s' = upMask s \<and> downMask s' = downMask s \<and> svec s' = svec s \<and>
     species (mstr s') = species (mstr s) \<and> atoms (mstr s') = atoms (mstr s) \<and>
     length (spins (mstr s')) = length (spins (mstr s)) \<and>
     rmin (mc s') = rmin (mc s) \<and> rmax (mc s') = rmax (mc s)"

text \<open>
  A calculation that returns the combined component of \<open>calc\<close> at index 2 and empty
  arrays in place of the two other components (and raises where indexing the result of
  \<open>calc\<close> at 2 would).
\<close>

definition keep_combined :: "calc_fn \<Rightarrow> calc_fn" where
  "keep_combined calc m c =
     (case calc m c of
        Inl e \<Rightarrow> Inl e
      | Inr comps \<Rightarrow> (if 2 < length comps then Inr [[], [], comps ! 2] else Inl IndexError))"

section \<open>A toy structure with two domains\<close>

text \<open>
  Two sites with opposite spins, one in each mask. The toy regeneration gives the first
  site the basis vector of species 0 and the second its opposite; the toy calculation
  returns, per site, a combination of the spin's third coordinate and the scale parameters.
\<close>

definition toy :: notebook where
  "toy = \<lparr>mstr = \<lparr>species = [''0'' \<mapsto> \<lparr>basisvecs = (1, 0, 0), kvecs = (1/2, 1/2, 1/2)\<rparr>],
                   atoms = [(0, 0, 0), (1/2, 1/2, 1/2)],
                   spins = [(1, 0, 0), (-1, 0, 0)]\<rparr>,
          mc = \<lparr>ordScale = 1, paraScale = 1, dampRate = 0, rmin = 0, rmax = 20\<rparr>,
          svec = (1, 0, 0), upMask = [True, False], downMask = [False, True]\<rparr>"

definition toy_makeSpins :: make_fn where
  "toy_makeSpins m =
     (case species m ''0'' of
        None \<Rightarrow> Inl LibraryError
      | Some sp \<Rightarrow> Inr (m\<lparr>spins := [basisvecs sp, vneg (basisvecs sp)]\<rparr>))"

definition toy_calc :: calc_fn where
  "toy_calc m c = Inr [[], [], map (\<lambda>(x, y, z). ordScale c * z + paraScale c) (spins m)]"

text \<open>
  A toy solver: it evaluates the start vector, then tries the pole \<open>th = 0\<close>, then
  stops and returns the start vector.
\<close>

definition toy_solver :: lsq_solver where
  "toy_solver =
     \<lparr>next_x = (\<lambda>x0 bnds h. if h = [] then Some x0
                            else if length h = 1 then Some (0.1, 0.1, 0.1, 0, 0)
                            else None),
      best_x = (\<lambda>x0 bnds h. x0),
      max_nfev = 3\<rparr>"

text \<open>
  A second toy solver: it evaluates the start vector, stops and returns it.
\<close>

definition toy_solver_once :: lsq_solver where
  "toy_solver_once =
     \<lparr>next_x = (\<lambda>x0 bnds h. if h = [] then Some x0 else None),
      best_x = (\<lambda>x0 bnds h. x0),
      max_nfev = 3\<rparr>"

section \<open>Direction parameterisation\<close>

lemma sumsq_newsvec:
  "(sin th * cos phi) * (sin th * cos phi) + (sin th * sin phi) * (sin th * sin phi)
     + cos th * cos th = (1::real)"
proof -
  have azimuth: "cos phi * cos phi + sin phi * sin phi = 1"
    using sin_cos_squared_add2 [of phi] by (simp add: power2_eq_square)
  have polar: "sin th * sin th + cos th * cos th = 1"
    using sin_cos_squared_add [of th] by (simp add: power2_eq_square)
  have "(sin th * cos phi) * (sin th * cos phi) + (sin th * sin phi) * (sin th * sin phi)
          + cos th * cos th
        = (sin th * sin th) * (cos phi * cos phi + sin phi * sin phi) + cos th * cos th"
    by (simp only: distrib_left mult_ac)
  also have "\<dots> = 1"
    by (simp only: azimuth polar mult_1_right)
  finally show ?thesis .
qed

lemma norm3_newsvec: "norm3 (newsvec th phi) = 1"
  by (simp add: newsvec_def sumsq_newsvec)

text \<open>
  C3. The direction vector computed by both residual functions from \<open>(th, phi)\<close> is
  \<open>(sin th * cos phi, sin th * sin phi, cos th)\<close> and its Euclidean norm is exactly 1
  over the reals, for every pair of angles (so in particular for \<open>th\<close> in \<open>[0, pi]\<close>
  and \<open>phi\<close> in \<open>[-pi, pi]\<close>).
\<close>

theorem newsvec_unit:
  "newsvec th phi = (sin th * cos phi, sin th * sin phi, cos th) \<and> norm3 (newsvec th phi) = 1"
proof
  show "newsvec th phi = (sin th * cos phi, sin th * sin phi, cos th)"
    by (simp add: newsvec_def)
  show "norm3 (newsvec th phi) = 1"
    by (rule norm3_newsvec)
qed

text \<open>
  C9. At the pole \<open>th = 0\<close> the direction does not depend on \<open>phi\<close>: for any two
  azimuthal angles the vectors agree, and both are \<open>(0, 0, 1)\<close>.
\<close>

theorem newsvec_pole:
  "newsvec 0 phi1 = newsvec 0 phi2 \<and> newsvec 0 phi1 = (0, 0, 1) \<and> newsvec 0 phi2 = (0, 0, 1)"
  by (simp add: newsvec_def)

section \<open>The masks are a partition\<close>

lemma norm3_lt_iff: "0 < r \<Longrightarrow> norm3 (a, b, c) < r \<longleftrightarrow> a * a + b * b + c * c < r * r"
proof -
  assume r: "0 < r"
  have nn: "0 \<le> a * a + b * b + c * c" by simp
  have "sqrt (a * a + b * b + c * c) < r \<longleftrightarrow> sqrt (a * a + b * b + c * c) < sqrt (r * r)"
    using r by simp
  also have "\<dots> \<longleftrightarrow> a * a + b * b + c * c < r * r"
    by (rule real_sqrt_less_iff)
  finally show ?thesis by simp
qed

lemma make_masks_nonempty:
  "sp \<noteq> [] \<Longrightarrow> make_masks sp sv = Inr (map (\<lambda>x. norm3 (vsub x sv) < 0.1) sp, map (\<lambda>x. \<not> norm3 (vsub x sv) < 0.1) sp)"
  by (simp add: make_masks_def Let_def comp_def)

text \<open>
  C5. Whenever the masks are computed from a spin array and a reference vector, mask A
  holds exactly the sites whose spin is within Euclidean distance 0.1 of the reference
  vector, mask B is its complement, the two are disjoint and together they cover every
  site index exactly once.
\<close>

theorem masks_partition:
  assumes "make_masks sp sv = Inr (up, down)"
  shows "length up = length sp \<and> length down = length sp \<and>
         up = map (\<lambda>x. norm3 (vsub x sv) < 0.1) sp \<and> down = map Not up \<and>
         mask_sites up \<inter> mask_sites down = {} \<and>
         mask_sites up \<union> mask_sites down = {..<length sp}"
proof -
  from assms have ne: "sp \<noteq> []"
    by (auto simp: make_masks_def)
  from assms ne have up: "up = map (\<lambda>x. norm3 (vsub x sv) < 0.1) sp" and down: "down = map Not up"
    by (auto simp: make_masks_def Let_def)
  have len: "length up = length sp" "length down = length sp"
    by (simp_all add: up down)
  have disj: "mask_sites up \<inter> mask_sites down = {}"
    by (auto simp: mask_sites_def down)
  have cover: "mask_sites up \<union> mask_sites down = {..<length sp}"
    using len by (auto simp: mask_sites_def down)
  from len up down disj cover show ?thesis by simp
qed

theorem masks_partition_witness:
  "make_masks [(0, 0, 1), (0, 0, -1)] (0, 0, 1) = Inr ([True, False], [False, True]) \<and>
   mask_sites [True, False] \<inter> mask_sites [False, True] = {} \<and>
   mask_sites [True, False] \<union> mask_sites [False, True] = {..<2}"
proof -
  have m: "make_masks [(0, 0, 1), (0, 0, -1)] (0, 0, 1) = Inr ([True, False], [False, True])"
    by (simp add: make_masks_def norm3_lt_iff)
  have len2: "length [(0, 0, 1), (0, 0, -1) :: vec3] = 2"
    by simp
  have "mask_sites [True, False] \<inter> mask_sites [False, True] = {}"
    and "mask_sites [True, False] \<union> mask_sites [False, True] = {..<length [(0, 0, 1), (0, 0, -1) :: vec3]}"
    using masks_partition [OF m] by blast+
  with m len2 show ?thesis
    by (simp only:)
qed

section \<open>The masked residual\<close>

lemma masked_rows:
  "length up = length sp \<Longrightarrow>
   map2 (\<lambda>b x. if b then w else x) (map Not up) (map2 (\<lambda>b x. if b then v else x) up sp)
     = map (\<lambda>b. if b then v else w) up"
  by (induction up sp rule: list_induct2) simp_all

lemma residual_mask_state:
  assumes "length (upMask s) = length (spins (mstr s))"
    and "downMask s = map Not (upMask s)"
  shows "fst (residual_mask calc (oscale, pscale, damp, th, phi) ydata s) =
           set_scales oscale pscale damp
             (s\<lparr>mstr := (mstr s)\<lparr>spins :=
                 map (\<lambda>b. if b then newsvec th phi else vneg (newsvec th phi)) (upMask s)\<rparr>\<rparr>)"
    and "snd (residual_mask calc (oscale, pscale, damp, th, phi) ydata s) =
           residual_value calc ydata (fst (residual_mask calc (oscale, pscale, damp, th, phi) ydata s))"
  using assms by (simp_all add: residual_mask_def mask_assign_def Let_def masked_rows)

lemma same_frame_refl: "same_frame s s"
  by (simp add: same_frame_def)

lemma same_frame_trans: "same_frame s s' \<Longrightarrow> same_frame s' s'' \<Longrightarrow> same_frame s s''"
  by (simp add: same_frame_def)

lemma residual_mask_frame: "same_frame s (fst (residual_mask calc p ydata s))"
  by (cases p) (simp add: residual_mask_def mask_assign_def Let_def same_frame_def set_scales_def)

lemma lsq_loop_frame:
  assumes step: "\<And>x s. same_frame s (fst (f x s))"
  shows "same_frame s (fst (lsq_loop f nxt n h s))"
proof (induction n arbitrary: h s)
  case 0
  show ?case by (simp add: same_frame_refl)
next
  case (Suc n)
  show ?case
  proof (cases "nxt h")
    case None
    then show ?thesis by (simp add: same_frame_refl)
  next
    case (Some x)
    obtain s' r where fx: "f x s = (s', r)" by (cases "f x s")
    have fr: "same_frame s s'" using step [of s x] fx by simp
    show ?thesis
    proof (cases r)
      case (Inl e)
      with Some fx fr show ?thesis by simp
    next
      case (Inr res)
      have "same_frame s' (fst (lsq_loop f nxt n (h @ [(x, res)]) s'))"
        by (rule Suc.IH)
      with fr have "same_frame s (fst (lsq_loop f nxt n (h @ [(x, res)]) s'))"
        by (rule same_frame_trans)
      with Some fx Inr show ?thesis by simp
    qed
  qed
qed

lemma least_squares_state:
  "fst (least_squares solver f x0 bnds s) = fst (lsq_loop f (next_x solver x0 bnds) (max_nfev solver) [] s)"
  by (simp add: least_squares_def split: prod.splits sum.splits)

lemma run_fit_state:
  "fst (run_fit solver calc f u v s) = fst (least_squares solver f (p0 u v) bounds s)"
  by (simp add: run_fit_def split: prod.splits sum.splits)

lemma residual_mask_changes:
  "\<exists>sp a b c. fst (residual_mask calc p ydata s) =
      s\<lparr>mstr := (mstr s)\<lparr>spins := sp\<rparr>, mc := (mc s)\<lparr>ordScale := a, paraScale := b, dampRate := c\<rparr>\<rparr>"
proof -
  obtain oscale pscale damp th phi where p: "p = (oscale, pscale, damp, th, phi)"
    by (cases p)
  have same: "s = s\<lparr>mstr := (mstr s)\<lparr>spins := spins (mstr s)\<rparr>,
      mc := (mc s)\<lparr>ordScale := ordScale (mc s), paraScale := paraScale (mc s), dampRate := dampRate (mc s)\<rparr>\<rparr>"
    by simp
  show ?thesis
  proof (cases "length (upMask s) = length (spins (mstr s))")
    case False
    then have "fst (residual_mask calc p ydata s) = s"
      by (simp add: p residual_mask_def mask_assign_def)
    with same show ?thesis by metis
  next
    case up: True
    show ?thesis
    proof (cases "length (downMask s) = length (spins (mstr s))")
      case False
      with up have "fst (residual_mask calc p ydata s) =
          s\<lparr>mstr := (mstr s)\<lparr>spins := map2 (\<lambda>b x. if b then newsvec th phi else x) (upMask s) (spins (mstr s))\<rparr>,
            mc := (mc s)\<lparr>ordScale := ordScale (mc s), paraScale := paraScale (mc s), dampRate := dampRate (mc s)\<rparr>\<rparr>"
        by (simp add: p residual_mask_def mask_assign_def Let_def)
      then show ?thesis by blast
    next
      case True
      with up have "fst (residual_mask calc p ydata s) =
          s\<lparr>mstr := (mstr s)\<lparr>spins := map2 (\<lambda>b x. if b then vneg (newsvec th phi) else x) (downMask s)
                 (map2 (\<lambda>b x. if b then newsvec th phi else x) (upMask s) (spins (mstr s)))\<rparr>,
            mc := (mc s)\<lparr>ordScale := oscale, paraScale := pscale, dampRate := damp\<rparr>\<rparr>"
        by (simp add: p residual_mask_def mask_assign_def Let_def set_scales_def)
      then show ?thesis by blast
    qed
  qed
qed


text \<open>
  C8. No evaluation of the masked residual changes the masks: whatever the parameters,
  the state it leaves differs from the state it found in the stored spin values and the
  three scale parameters of the calculator only, and the same holds for the whole fit
  (every evaluation the solver makes). The masks, the species with their propagation
  vectors, the atom positions and the number of sites are unchanged.
\<close>

theorem masks_fixed:
  "same_frame s (fst (residual_mask calc p ydata s)) \<and>
   (\<exists>sp a b c. fst (residual_mask calc p ydata s) =
      s\<lparr>mstr := (mstr s)\<lparr>spins := sp\<rparr>, mc := (mc s)\<lparr>ordScale := a, paraScale := b, dampRate := c\<rparr>\<rparr>) \<and>
   same_frame s (fst (fit_mask solver calc u v d s))"
  by (simp only: residual_mask_frame residual_mask_changes fit_mask_def run_fit_state
        least_squares_state lsq_loop_frame simp_thms)

text \<open>
  C2. One evaluation of the masked residual, with masks of the length of the spin array
  and mask B the complement of mask A (as the masks cell makes them), leaves every site
  of mask A at the direction \<open>(sin th * cos phi, sin th * sin phi, cos th)\<close> computed
  from \<open>(th, phi)\<close> and every site of mask B at its opposite, so every spin is the
  direction or its opposite; and with \<open>th = 0\<close>, \<open>phi = 0\<close> on two sites with
  A = {0} and B = {1} the spin array becomes \<open>[(0, 0, 1), (0, 0, -1)]\<close>.
\<close>

theorem residual_mask_overwrites:
  assumes "length (upMask s) = length (spins (mstr s))"
    and "downMask s = map Not (upMask s)"
  shows "spins (mstr (fst (residual_mask calc (oscale, pscale, damp, th, phi) ydata s))) =
           map (\<lambda>b. if b then (sin th * cos phi, sin th * sin phi, cos th)
                     else (- (sin th * cos phi), - (sin th * sin phi), - cos th)) (upMask s) \<and>
         (\<forall>x \<in> set (spins (mstr (fst (residual_mask calc (oscale, pscale, damp, th, phi) ydata s)))).
            x = (sin th * cos phi, sin th * sin phi, cos th) \<or>
            x = (- (sin th * cos phi), - (sin th * sin phi), - cos th)) \<and>
         spins (mstr (fst (residual_mask calc (oscale, pscale, damp, 0, 0) ydata
            (s\<lparr>mstr := (mstr s)\<lparr>spins := [a, b]\<rparr>, upMask := [True, False], downMask := [False, True]\<rparr>))))
           = [(0, 0, 1), (0, 0, -1)]"
proof -
  let ?d = "(sin th * cos phi, sin th * sin phi, cos th)"
  let ?o = "(- (sin th * cos phi), - (sin th * sin phi), - cos th)"
  have first: "spins (mstr (fst (residual_mask calc (oscale, pscale, damp, th, phi) ydata s))) =
           map (\<lambda>b. if b then ?d else ?o) (upMask s)"
    using assms by (simp add: residual_mask_state set_scales_def newsvec_def)
  have second: "\<forall>x \<in> set (spins (mstr (fst (residual_mask calc (oscale, pscale, damp, th, phi) ydata s)))).
            x = ?d \<or> x = ?o"
    unfolding first by auto
  let ?t = "s\<lparr>mstr := (mstr s)\<lparr>spins := [a, b]\<rparr>, upMask := [True, False], downMask := [False, True]\<rparr>"
  have "length (upMask ?t) = length (spins (mstr ?t))" and "downMask ?t = map Not (upMask ?t)"
    by simp_all
  then have "spins (mstr (fst (residual_mask calc (oscale, pscale, damp, 0, 0) ydata ?t))) =
      map (\<lambda>b. if b then newsvec 0 0 else vneg (newsvec 0 0)) (upMask ?t)"
    by (simp add: residual_mask_state set_scales_def del: fun_upd_apply)
  then have third: "spins (mstr (fst (residual_mask calc (oscale, pscale, damp, 0, 0) ydata ?t))) =
      [(0, 0, 1), (0, 0, -1)]"
    by (simp add: newsvec_def)
  from first second third show ?thesis by blast
qed

text \<open>
  On the toy structure, away from the pole: \<open>th = pi / 2\<close> and \<open>phi = pi / 2\<close> give
  the direction \<open>(0, 1, 0)\<close>.
\<close>

theorem residual_mask_overwrites_witness:
  "length (upMask toy) = length (spins (mstr toy)) \<and> downMask toy = map Not (upMask toy) \<and>
   spins (mstr (fst (residual_mask toy_calc (1, 1, 0, pi / 2, pi / 2) [0] toy)))
     = [(0, 1, 0), (0, -1, 0)]"
proof -
  have a: "length (upMask toy) = length (spins (mstr toy))"
    by (simp add: toy_def)
  have b: "downMask toy = map Not (upMask toy)"
    by (simp add: toy_def)
  have up: "upMask toy = [True, False]"
    by (simp add: toy_def)
  from residual_mask_overwrites [OF a b, of toy_calc 1 1 0 "pi / 2" "pi / 2" "[0]"]
  have "spins (mstr (fst (residual_mask toy_calc (1, 1, 0, pi / 2, pi / 2) [0] toy)))
     = map (\<lambda>b. if b then (sin (pi / 2) * cos (pi / 2), sin (pi / 2) * sin (pi / 2), cos (pi / 2))
                 else (- (sin (pi / 2) * cos (pi / 2)), - (sin (pi / 2) * sin (pi / 2)), - cos (pi / 2)))
         (upMask toy)"
    by blast
  then have "spins (mstr (fst (residual_mask toy_calc (1, 1, 0, pi / 2, pi / 2) [0] toy)))
     = [(0, 1, 0), (0, -1, 0)]"
    by (simp add: up)
  with a b show ?thesis by blast
qed

section \<open>The regeneration residual\<close>

text \<open>
  C4. One evaluation of the regeneration residual, when the library calls return and the
  observed array has the length of the calculated signal: the direction
  \<open>(sin th * cos phi, sin th * sin phi, cos th)\<close> computed from \<open>(th, phi)\<close> becomes
  the basis vector of species 0, the structure is regenerated from it by \<open>makeSpins\<close>,
  the three scale parameters are set on the calculator, and the result is the elementwise
  difference of the observed array and component 2 of the calculation on the regenerated
  structure.
\<close>

theorem residual_regen_steps:
  assumes "species (mstr s) ''0'' = Some sp"
    and "makeSpins ((mstr s)\<lparr>species := (species (mstr s))
           (''0'' \<mapsto> sp\<lparr>basisvecs := (sin th * cos phi, sin th * sin phi, cos th)\<rparr>)\<rparr>) = Inr m"
    and "calc m ((mc s)\<lparr>ordScale := oscale, paraScale := pscale, dampRate := damp\<rparr>) = Inr comps"
    and "2 < length comps"
    and "length ydata = length (comps ! 2)"
  shows "residual_regen makeSpins calc (oscale, pscale, damp, th, phi) ydata s =
           (s\<lparr>mstr := m, mc := (mc s)\<lparr>ordScale := oscale, paraScale := pscale, dampRate := damp\<rparr>\<rparr>,
            Inr (map2 (-) ydata (comps ! 2)))"
  using assms
  by (simp add: residual_regen_def newsvec_def Let_def set_scales_def residual_value_def
        calc_signal_def py_index_def np_sub_def)

text \<open>
  On the toy structure, away from the pole: \<open>th = pi / 2\<close> and \<open>phi = pi / 2\<close> give
  the basis vector \<open>(0, 1, 0)\<close>, the spins \<open>[(0, 1, 0), (0, -1, 0)]\<close> and the signal
  \<open>[3, 3]\<close>.
\<close>

theorem residual_regen_steps_witness:
  "species (mstr toy) ''0'' = Some \<lparr>basisvecs = (1, 0, 0), kvecs = (1/2, 1/2, 1/2)\<rparr> \<and>
   residual_regen toy_makeSpins toy_calc (2, 3, 0, pi / 2, pi / 2) [0, 0] toy =
     (toy\<lparr>mstr := \<lparr>species = [''0'' \<mapsto> \<lparr>basisvecs = (0, 1, 0), kvecs = (1/2, 1/2, 1/2)\<rparr>],
                      atoms = [(0, 0, 0), (1/2, 1/2, 1/2)],
                      spins = [(0, 1, 0), (0, -1, 0)]\<rparr>,
          mc := (mc toy)\<lparr>ordScale := 2, paraScale := 3, dampRate := 0\<rparr>\<rparr>,
      Inr [-3, -3])"
proof -
  let ?sp = "\<lparr>basisvecs = (1, 0, 0), kvecs = (1/2, 1/2, 1/2)\<rparr>"
  let ?m = "\<lparr>species = [''0'' \<mapsto> \<lparr>basisvecs = (0, 1, 0), kvecs = (1/2, 1/2, 1/2)\<rparr>],
             atoms = [(0, 0, 0), (1/2, 1/2, 1/2)],
             spins = [(0, 1, 0), (0, -1, 0)]\<rparr>"
  let ?comps = "[[], [], [3, 3 :: real]]"
  have h1: "species (mstr toy) ''0'' = Some ?sp"
    by (simp add: toy_def)
  have h2: "toy_makeSpins ((mstr toy)\<lparr>species := (species (mstr toy))
      (''0'' \<mapsto> ?sp\<lparr>basisvecs := (sin (pi / 2) * cos (pi / 2), sin (pi / 2) * sin (pi / 2), cos (pi / 2))\<rparr>)\<rparr>)
      = Inr ?m"
    by (simp add: toy_def toy_makeSpins_def)
  have h3: "toy_calc ?m ((mc toy)\<lparr>ordScale := 2, paraScale := 3, dampRate := 0\<rparr>) = Inr ?comps"
    by (simp add: toy_calc_def)
  have h4: "2 < length ?comps"
    by simp
  have h5: "length [0, 0 :: real] = length (?comps ! 2)"
    by simp
  from residual_regen_steps [where makeSpins = toy_makeSpins and calc = toy_calc and s = toy
      and th = "pi / 2" and phi = "pi / 2" and oscale = 2 and pscale = 3 and damp = 0,
      OF h1 h2 h3 h4 h5]
  have "residual_regen toy_makeSpins toy_calc (2, 3, 0, pi / 2, pi / 2) [0, 0] toy =
     (toy\<lparr>mstr := ?m, mc := (mc toy)\<lparr>ordScale := 2, paraScale := 3, dampRate := 0\<rparr>\<rparr>,
      Inr (map2 (-) [0, 0] (?comps ! 2)))" .
  then have "residual_regen toy_makeSpins toy_calc (2, 3, 0, pi / 2, pi / 2) [0, 0] toy =
     (toy\<lparr>mstr := ?m, mc := (mc toy)\<lparr>ordScale := 2, paraScale := 3, dampRate := 0\<rparr>\<rparr>,
      Inr [-3, -3])"
    by simp
  with h1 show ?thesis by blast
qed

section \<open>What every evaluation sets and reads\<close>

lemma calc_signal_keep_combined: "calc_signal (keep_combined calc) s = calc_signal calc s"
  by (simp add: calc_signal_def keep_combined_def py_index_def split: sum.splits)

lemma residual_value_keep_combined:
  "residual_value (keep_combined calc) ydata s = residual_value calc ydata s"
  by (simp add: residual_value_def calc_signal_keep_combined)

lemma residual_regen_keep_combined:
  "residual_regen makeSpins (keep_combined calc) p ydata s = residual_regen makeSpins calc p ydata s"
  unfolding residual_regen_def residual_value_keep_combined by (rule refl)

lemma residual_mask_keep_combined:
  "residual_mask (keep_combined calc) p ydata s = residual_mask calc p ydata s"
  unfolding residual_mask_def residual_value_keep_combined by (rule refl)

lemma mpdf_keep_combined:
  "mpdf makeAll (keep_combined calc) a b c s = mpdf makeAll calc a b c s"
  unfolding mpdf_def calc_signal_keep_combined by (rule refl)

lemma residual_value_Inr:
  "residual_value calc ydata s = Inr r \<Longrightarrow>
   \<exists>comps. calc (mstr s) (mc s) = Inr comps \<and> 2 < length comps \<and> np_sub ydata (comps ! 2) = Inr r"
  by (auto simp: residual_value_def calc_signal_def py_index_def split: sum.splits if_splits)

lemma calc_signal_Inr:
  "calc_signal calc s = Inr r \<Longrightarrow>
   \<exists>comps. calc (mstr s) (mc s) = Inr comps \<and> 2 < length comps \<and> r = comps ! 2"
  by (auto simp: calc_signal_def py_index_def split: sum.splits if_splits)

lemma residual_regen_Inr:
  assumes "residual_regen makeSpins calc (oscale, pscale, damp, th, phi) ydata s = (s', Inr r)"
  shows "mc s' = (mc s)\<lparr>ordScale := oscale, paraScale := pscale, dampRate := damp\<rparr>"
    and "residual_value calc ydata s' = Inr r"
  using assms
  by (auto simp: residual_regen_def Let_def set_scales_def split: option.splits sum.splits)

lemma residual_mask_Inr:
  assumes "residual_mask calc (oscale, pscale, damp, th, phi) ydata s = (s', Inr r)"
  shows "mc s' = (mc s)\<lparr>ordScale := oscale, paraScale := pscale, dampRate := damp\<rparr>"
    and "residual_value calc ydata s' = Inr r"
  using assms
  by (auto simp: residual_mask_def Let_def set_scales_def split: option.splits sum.splits)

lemma mpdf_Inr:
  assumes "mpdf makeAll calc parascale ordscale damp s = (s', Inr r)"
  shows "mc s' = (mc s)\<lparr>paraScale := parascale, ordScale := ordscale, dampRate := damp\<rparr>"
    and "calc_signal calc s' = Inr r"
  using assms
  by (auto simp: mpdf_def Let_def split: option.splits sum.splits)


lemma toy_regen:
  "residual_regen toy_makeSpins toy_calc (2, 3, 0, 0, 0) [0, 0] toy =
     (toy\<lparr>mstr := \<lparr>species = [''0'' \<mapsto> \<lparr>basisvecs = (0, 0, 1), kvecs = (1/2, 1/2, 1/2)\<rparr>],
                      atoms = [(0, 0, 0), (1/2, 1/2, 1/2)],
                      spins = [(0, 0, 1), (0, 0, -1)]\<rparr>,
          mc := \<lparr>ordScale = 2, paraScale = 3, dampRate = 0, rmin = 0, rmax = 20\<rparr>\<rparr>,
      Inr [-5, -1])"
  by (simp add: residual_regen_def toy_def toy_makeSpins_def toy_calc_def newsvec_def Let_def
        set_scales_def residual_value_def calc_signal_def py_index_def np_sub_def)

lemma toy_mask:
  "residual_mask toy_calc (2, 3, 0, 0, 0) [0, 0] toy =
     (toy\<lparr>mstr := \<lparr>species = [''0'' \<mapsto> \<lparr>basisvecs = (1, 0, 0), kvecs = (1/2, 1/2, 1/2)\<rparr>],
                      atoms = [(0, 0, 0), (1/2, 1/2, 1/2)],
                      spins = [(0, 0, 1), (0, 0, -1)]\<rparr>,
          mc := \<lparr>ordScale = 2, paraScale = 3, dampRate = 0, rmin = 0, rmax = 20\<rparr>\<rparr>,
      Inr [-5, -1])"
  by (simp add: residual_mask_def toy_def toy_calc_def newsvec_def mask_assign_def Let_def
        set_scales_def residual_value_def calc_signal_def py_index_def np_sub_def)

lemma toy_mpdf:
  "mpdf toy_makeSpins toy_calc 3 2 0 toy =
     (toy\<lparr>mc := \<lparr>ordScale = 2, paraScale = 3, dampRate = 0, rmin = 0, rmax = 20\<rparr>\<rparr>,
      Inr [3, 3])"
  by (simp add: mpdf_def toy_def toy_makeSpins_def toy_calc_def calc_signal_def py_index_def Let_def)

text \<open>
  C10. The two residual functions and \<open>mpdf\<close> use the calculation's output through
  its component at index 2 only: replacing the other components by empty arrays changes
  neither the state they leave nor what they return. An evaluation that returns a result
  has set the three scale parameters of the calculator to its arguments, left the other
  attributes of the calculator as they were, and computed its result from component 2.
\<close>

theorem evaluations_set_scalars_use_combined:
  "residual_regen makeSpins (keep_combined calc) p ydata s = residual_regen makeSpins calc p ydata s \<and>
   residual_mask (keep_combined calc) p ydata s = residual_mask calc p ydata s \<and>
   mpdf makeAll (keep_combined calc) parascale ordscale damp s = mpdf makeAll calc parascale ordscale damp s \<and>
   (residual_regen makeSpins calc (oscale, pscale, damp, th, phi) ydata s = (s1, Inr r1) \<longrightarrow>
      mc s1 = (mc s)\<lparr>ordScale := oscale, paraScale := pscale, dampRate := damp\<rparr> \<and>
      (\<exists>comps. calc (mstr s1) (mc s1) = Inr comps \<and> 2 < length comps \<and>
         np_sub ydata (comps ! 2) = Inr r1)) \<and>
   (residual_mask calc (oscale, pscale, damp, th, phi) ydata s = (s2, Inr r2) \<longrightarrow>
      mc s2 = (mc s)\<lparr>ordScale := oscale, paraScale := pscale, dampRate := damp\<rparr> \<and>
      (\<exists>comps. calc (mstr s2) (mc s2) = Inr comps \<and> 2 < length comps \<and>
         np_sub ydata (comps ! 2) = Inr r2)) \<and>
   (mpdf makeAll calc parascale ordscale damp s = (s3, Inr r3) \<longrightarrow>
      mc s3 = (mc s)\<lparr>paraScale := parascale, ordScale := ordscale, dampRate := damp\<rparr> \<and>
      (\<exists>comps. calc (mstr s3) (mc s3) = Inr comps \<and> 2 < length comps \<and> r3 = comps ! 2))"
proof -
  have regen: "residual_regen makeSpins calc (oscale, pscale, damp, th, phi) ydata s = (s1, Inr r1) \<longrightarrow>
      mc s1 = (mc s)\<lparr>ordScale := oscale, paraScale := pscale, dampRate := damp\<rparr> \<and>
      (\<exists>comps. calc (mstr s1) (mc s1) = Inr comps \<and> 2 < length comps \<and>
         np_sub ydata (comps ! 2) = Inr r1)"
    by (blast dest: residual_regen_Inr residual_value_Inr)
  have msk: "residual_mask calc (oscale, pscale, damp, th, phi) ydata s = (s2, Inr r2) \<longrightarrow>
      mc s2 = (mc s)\<lparr>ordScale := oscale, paraScale := pscale, dampRate := damp\<rparr> \<and>
      (\<exists>comps. calc (mstr s2) (mc s2) = Inr comps \<and> 2 < length comps \<and>
         np_sub ydata (comps ! 2) = Inr r2)"
    by (blast dest: residual_mask_Inr residual_value_Inr)
  have co: "mpdf makeAll calc parascale ordscale damp s = (s3, Inr r3) \<longrightarrow>
      mc s3 = (mc s)\<lparr>paraScale := parascale, ordScale := ordscale, dampRate := damp\<rparr> \<and>
      (\<exists>comps. calc (mstr s3) (mc s3) = Inr comps \<and> 2 < length comps \<and> r3 = comps ! 2)"
    by (blast dest: mpdf_Inr calc_signal_Inr)
  from regen msk co show ?thesis
    by (simp only: residual_regen_keep_combined residual_mask_keep_combined mpdf_keep_combined
          simp_thms)
qed

theorem evaluations_set_scalars_use_combined_witness:
  "snd (residual_regen toy_makeSpins toy_calc (2, 3, 0, 0, 0) [0, 0] toy) = Inr [-5, -1] \<and>
   mc (fst (residual_regen toy_makeSpins toy_calc (2, 3, 0, 0, 0) [0, 0] toy)) =
     (mc toy)\<lparr>ordScale := 2, paraScale := 3, dampRate := 0\<rparr> \<and>
   snd (residual_mask toy_calc (2, 3, 0, 0, 0) [0, 0] toy) = Inr [-5, -1] \<and>
   mc (fst (residual_mask toy_calc (2, 3, 0, 0, 0) [0, 0] toy)) =
     (mc toy)\<lparr>ordScale := 2, paraScale := 3, dampRate := 0\<rparr> \<and>
   snd (mpdf toy_makeSpins toy_calc 3 2 0 toy) = Inr [3, 3] \<and>
   mc (fst (mpdf toy_makeSpins toy_calc 3 2 0 toy)) =
     (mc toy)\<lparr>paraScale := 3, ordScale := 2, dampRate := 0\<rparr>"
proof -
  note inst = evaluations_set_scalars_use_combined
    [of toy_makeSpins toy_calc "(2, 3, 0, 0, 0)" "[0, 0]" toy toy_makeSpins 3 2 0 2 3 0 0
       "fst (residual_regen toy_makeSpins toy_calc (2, 3, 0, 0, 0) [0, 0] toy)" "[-5, -1]"
       "fst (residual_mask toy_calc (2, 3, 0, 0, 0) [0, 0] toy)" "[-5, -1]"
       "fst (mpdf toy_makeSpins toy_calc 3 2 0 toy)" "[3, 3]"]
  have a: "residual_regen toy_makeSpins toy_calc (2, 3, 0, 0, 0) [0, 0] toy =
      (fst (residual_regen toy_makeSpins toy_calc (2, 3, 0, 0, 0) [0, 0] toy), Inr [-5, -1])"
    by (simp add: toy_regen)
  have b: "residual_mask toy_calc (2, 3, 0, 0, 0) [0, 0] toy =
      (fst (residual_mask toy_calc (2, 3, 0, 0, 0) [0, 0] toy), Inr [-5, -1])"
    by (simp add: toy_mask)
  have c: "mpdf toy_makeSpins toy_calc 3 2 0 toy =
      (fst (mpdf toy_makeSpins toy_calc 3 2 0 toy), Inr [3, 3])"
    by (simp add: toy_mpdf)
  have sa: "snd (residual_regen toy_makeSpins toy_calc (2, 3, 0, 0, 0) [0, 0] toy) = Inr [-5, -1]"
    by (simp add: toy_regen)
  have sb: "snd (residual_mask toy_calc (2, 3, 0, 0, 0) [0, 0] toy) = Inr [-5, -1]"
    by (simp add: toy_mask)
  have sc: "snd (mpdf toy_makeSpins toy_calc 3 2 0 toy) = Inr [3, 3]"
    by (simp add: toy_mpdf)
  from inst a b c sa sb sc show ?thesis
    by blast
qed

section \<open>The two residual functions agree on a two-domain structure\<close>

lemma up_test_same: "norm3 (vsub v v) < 0.1"
  by (cases v) simp

lemma up_test_opposite:
  assumes "norm3 v = 1"
  shows "\<not> norm3 (vsub (vneg v) v) < 0.1"
proof -
  obtain a b c where v: "v = (a, b, c)" by (cases v)
  from assms have "sqrt (a * a + b * b + c * c) = sqrt 1"
    by (simp add: v)
  then have one: "a * a + b * b + c * c = 1"
    by (simp only: real_sqrt_eq_iff)
  have "(- a - a) * (- a - a) + (- b - b) * (- b - b) + (- c - c) * (- c - c)
          = 4 * (a * a + b * b + c * c)"
    by (simp add: algebra_simps)
  with one have "(- a - a) * (- a - a) + (- b - b) * (- b - b) + (- c - c) * (- c - c) = 4"
    by simp
  then show ?thesis
    by (simp add: v norm3_lt_iff)
qed

lemma up_mask_of_signs:
  assumes "norm3 v = 1"
  shows "map (\<lambda>x. norm3 (vsub x v) < 0.1) (map (\<lambda>b. if b then v else vneg v) signs) = signs"
proof -
  have "(\<lambda>b. norm3 (vsub (if b then v else vneg v) v) < 0.1) = (\<lambda>b. b)"
    using up_test_same [of v] up_test_opposite [OF assms] by auto
  then show ?thesis
    by (simp add: comp_def)
qed

lemma residual_value_cong:
  assumes "calc (mstr s) (mc s) = calc (mstr s') (mc s')"
  shows "calc_signal calc s = calc_signal calc s'"
    and "residual_value calc ydata s = residual_value calc ydata s'"
  using assms by (simp_all add: residual_value_def calc_signal_def)

lemma residual_regen_run:
  assumes "species (mstr s) ''0'' = Some sp"
    and "makeSpins ((mstr s)\<lparr>species := (species (mstr s))(''0'' \<mapsto> sp\<lparr>basisvecs := newsvec th phi\<rparr>)\<rparr>) = Inr m"
  shows "residual_regen makeSpins calc (oscale, pscale, damp, th, phi) ydata s =
           (set_scales oscale pscale damp (s\<lparr>mstr := m\<rparr>),
            residual_value calc ydata (set_scales oscale pscale damp (s\<lparr>mstr := m\<rparr>)))"
  using assms by (simp add: residual_regen_def Let_def)

text \<open>
  C1. On a structure that is exactly two-domain collinear, the two residual functions
  compute the same signal and return the same residual for the same parameters and the
  same observed data. The reference spins are the reference vector or its opposite, site
  by site, following a pattern of signs; the reference vector is the direction of the
  initial angles; the masks are those the masks cell computes from them; regeneration
  from the new direction gives every site the new direction or its opposite by the same
  pattern and keeps the atoms; and the calculation reads the atoms and the spins of the
  structure (it does not read the basis vector, which only the regeneration path updates).
\<close>

theorem residuals_agree_two_domain:
  assumes ref: "spins (mstr s) = map (\<lambda>b. if b then svec s else vneg (svec s)) signs"
    and sv: "svec s = newsvec th0 phi0"
    and masks: "masks_cell s = Inr sm"
    and sp: "species (mstr s) ''0'' = Some sp"
    and regen: "makeSpins ((mstr s)\<lparr>species := (species (mstr s))(''0'' \<mapsto> sp\<lparr>basisvecs := newsvec th phi\<rparr>)\<rparr>) = Inr m"
    and two_domain: "spins m = map (\<lambda>b. if b then newsvec th phi else vneg (newsvec th phi)) signs"
    and same_atoms: "atoms m = atoms (mstr s)"
    and reads: "\<And>m1 m2 c. atoms m1 = atoms m2 \<Longrightarrow> spins m1 = spins m2 \<Longrightarrow> calc m1 c = calc m2 c"
  shows "calc_signal calc (fst (residual_regen makeSpins calc (oscale, pscale, damp, th, phi) ydata s)) =
         calc_signal calc (fst (residual_mask calc (oscale, pscale, damp, th, phi) ydata sm)) \<and>
         snd (residual_regen makeSpins calc (oscale, pscale, damp, th, phi) ydata s) =
         snd (residual_mask calc (oscale, pscale, damp, th, phi) ydata sm)"
proof -
  let ?p = "(oscale, pscale, damp, th, phi)"
  let ?nv = "newsvec th phi"
  have unit: "norm3 (svec s) = 1"
    by (simp add: sv norm3_newsvec)
  have up: "map (\<lambda>x. norm3 (vsub x (svec s)) < 0.1) (spins (mstr s)) = signs"
    unfolding ref by (rule up_mask_of_signs [OF unit])
  from masks have ne: "spins (mstr s) \<noteq> []"
    by (auto simp: masks_cell_def make_masks_def split: if_splits)
  from masks ne have sm: "sm = s\<lparr>upMask := signs, downMask := map Not signs\<rparr>"
    using up by (auto simp: masks_cell_def make_masks_def Let_def)
  have len: "length (upMask sm) = length (spins (mstr sm))"
    by (simp add: sm ref)
  have down: "downMask sm = map Not (upMask sm)"
    by (simp add: sm)
  let ?a = "fst (residual_regen makeSpins calc ?p ydata s)"
  let ?b = "fst (residual_mask calc ?p ydata sm)"
  have a: "?a = set_scales oscale pscale damp (s\<lparr>mstr := m\<rparr>)"
    and ra: "snd (residual_regen makeSpins calc ?p ydata s) = residual_value calc ydata ?a"
    by (simp_all add: residual_regen_run [where makeSpins = makeSpins, OF sp regen])
  have b: "?b = set_scales oscale pscale damp
             (sm\<lparr>mstr := (mstr sm)\<lparr>spins := map (\<lambda>b. if b then ?nv else vneg ?nv) (upMask sm)\<rparr>\<rparr>)"
    and rb: "snd (residual_mask calc ?p ydata sm) = residual_value calc ydata ?b"
    by (rule residual_mask_state [OF len down])+
  have "atoms (mstr ?a) = atoms (mstr ?b)" and "spins (mstr ?a) = spins (mstr ?b)"
    and "mc ?a = mc ?b"
    unfolding a b by (simp_all add: set_scales_def sm two_domain same_atoms)
  then have "calc (mstr ?a) (mc ?a) = calc (mstr ?b) (mc ?b)"
    using reads [of "mstr ?a" "mstr ?b" "mc ?b"] by simp
  then have "calc_signal calc ?a = calc_signal calc ?b"
    and "residual_value calc ydata ?a = residual_value calc ydata ?b"
    by (rule residual_value_cong)+
  then show ?thesis
    by (simp only: ra rb simp_thms)
qed


theorem residuals_agree_two_domain_witness:
  "masks_cell toy = Inr toy \<and>
   calc_signal toy_calc (fst (residual_regen toy_makeSpins toy_calc (2, 3, 0, 0, 0) [0, 0] toy)) =
   calc_signal toy_calc (fst (residual_mask toy_calc (2, 3, 0, 0, 0) [0, 0] toy)) \<and>
   snd (residual_regen toy_makeSpins toy_calc (2, 3, 0, 0, 0) [0, 0] toy) =
   snd (residual_mask toy_calc (2, 3, 0, 0, 0) [0, 0] toy) \<and>
   snd (residual_mask toy_calc (2, 3, 0, 0, 0) [0, 0] toy) = Inr [-5, -1]"
proof -
  let ?sp = "\<lparr>basisvecs = (1, 0, 0), kvecs = (1/2, 1/2, 1/2)\<rparr>"
  let ?m = "\<lparr>species = [''0'' \<mapsto> \<lparr>basisvecs = (0, 0, 1), kvecs = (1/2, 1/2, 1/2)\<rparr>],
             atoms = [(0, 0, 0), (1/2, 1/2, 1/2)],
             spins = [(0, 0, 1), (0, 0, -1)]\<rparr>"
  have ref: "spins (mstr toy) = map (\<lambda>b. if b then svec toy else vneg (svec toy)) [True, False]"
    by (simp add: toy_def)
  have sv: "svec toy = newsvec (pi / 2) 0"
    by (simp add: toy_def newsvec_def)
  have masks: "masks_cell toy = Inr toy"
    by (simp add: masks_cell_def make_masks_def toy_def norm3_lt_iff)
  have sp: "species (mstr toy) ''0'' = Some ?sp"
    by (simp add: toy_def)
  have regen: "toy_makeSpins ((mstr toy)\<lparr>species := (species (mstr toy))(''0'' \<mapsto> ?sp\<lparr>basisvecs := newsvec 0 0\<rparr>)\<rparr>) = Inr ?m"
    by (simp add: toy_def toy_makeSpins_def newsvec_def)
  have two_domain: "spins ?m = map (\<lambda>b. if b then newsvec 0 0 else vneg (newsvec 0 0)) [True, False]"
    by (simp add: newsvec_def)
  have same_atoms: "atoms ?m = atoms (mstr toy)"
    by (simp add: toy_def)
  have reads: "\<And>m1 m2 c. atoms m1 = atoms m2 \<Longrightarrow> spins m1 = spins m2 \<Longrightarrow> toy_calc m1 c = toy_calc m2 c"
    by (simp add: toy_calc_def)
  from residuals_agree_two_domain [where makeSpins = toy_makeSpins and calc = toy_calc
      and oscale = 2 and pscale = 3 and damp = 0 and ydata = "[0, 0]",
      OF ref sv masks sp regen two_domain same_atoms reads]
  have "calc_signal toy_calc (fst (residual_regen toy_makeSpins toy_calc (2, 3, 0, 0, 0) [0, 0] toy)) =
   calc_signal toy_calc (fst (residual_mask toy_calc (2, 3, 0, 0, 0) [0, 0] toy)) \<and>
   snd (residual_regen toy_makeSpins toy_calc (2, 3, 0, 0, 0) [0, 0] toy) =
   snd (residual_mask toy_calc (2, 3, 0, 0, 0) [0, 0] toy)" .
  moreover have "snd (residual_mask toy_calc (2, 3, 0, 0, 0) [0, 0] toy) = Inr [-5, -1]"
    by (simp add: toy_mask)
  ultimately show ?thesis
    using masks by blast
qed

section \<open>The start vector\<close>

text \<open>
  C6, as the code has it. The start vector has its three scale components fixed at 0.1; its polar
  angle is the arc cosine of the first draw and its azimuthal angle is the second draw.
  For every first draw in \<open>[-1, 1)\<close> and second draw in \<open>[-pi, pi)\<close>, every
  component lies within its lower and upper bound.
\<close>

theorem p0_within_bounds:
  assumes "- 1 \<le> u" and "u < 1" and "- pi \<le> v" and "v < pi"
  shows "p0 u v = (0.1, 0.1, 0.1, arccos u, v) \<and> in_bounds (p0 u v) bounds"
  using assms by (simp add: p0_def bounds_def arccos_lbound arccos_ubound)

theorem p0_within_bounds_witness:
  "- 1 \<le> (0::real) \<and> (0::real) < 1 \<and> - pi \<le> 0 \<and> 0 < pi \<and>
   p0 0 0 = (0.1, 0.1, 0.1, arccos 0, 0) \<and> in_bounds (p0 0 0) bounds"
proof -
  have a: "- 1 \<le> (0::real)" and b: "(0::real) < 1" and c: "- pi \<le> 0" and d: "0 < pi"
    by simp_all
  from p0_within_bounds [OF a b c d] a b c d show ?thesis
    by blast
qed

text \<open>
  C6 as the specification words it (every component drawn at random) does not hold: the
  three scale components of the start vector are 0.1 at two different pairs of draws,
  and no two pairs of draws give different values.
\<close>

theorem p0_scales_fixed:
  "p0 (- 1 / 2) 0 = (0.1, 0.1, 0.1, arccos (- 1 / 2), 0) \<and>
   p0 (1 / 2) 1 = (0.1, 0.1, 0.1, arccos (1 / 2), 1) \<and>
   \<not> (\<exists>u v u' v'. fst (p0 u v) \<noteq> fst (p0 u' v') \<or>
          fst (snd (p0 u v)) \<noteq> fst (snd (p0 u' v')) \<or>
          fst (snd (snd (p0 u v))) \<noteq> fst (snd (snd (p0 u' v'))))"
  by (simp add: p0_def)

section \<open>The final signal\<close>

lemma lsq_loop_last:
  "lsq_loop f nxt n h s = (s', Inr h') \<Longrightarrow>
   (h' = h \<and> s' = s) \<or> (h' \<noteq> [] \<and> (\<exists>s0. f (fst (last h')) s0 = (s', Inr (snd (last h')))))"
proof (induction n arbitrary: h s)
  case 0
  then show ?case by simp
next
  case (Suc n)
  show ?case
  proof (cases "nxt h")
    case None
    with Suc.prems show ?thesis by simp
  next
    case (Some x)
    obtain s1 r1 where fx: "f x s = (s1, r1)" by (cases "f x s")
    show ?thesis
    proof (cases r1)
      case (Inl e)
      with Suc.prems Some fx show ?thesis by simp
    next
      case (Inr r)
      with Suc.prems Some fx have run: "lsq_loop f nxt n (h @ [(x, r)]) s1 = (s', Inr h')"
        by simp
      from Suc.IH [OF run] show ?thesis
      proof
        assume "h' = h @ [(x, r)] \<and> s' = s1"
        with fx Inr have "h' \<noteq> []" and "f (fst (last h')) s = (s', Inr (snd (last h')))"
          by simp_all
        then show ?thesis by blast
      next
        assume "h' \<noteq> [] \<and> (\<exists>s0. f (fst (last h')) s0 = (s', Inr (snd (last h'))))"
        then show ?thesis by blast
      qed
    qed
  qed
qed

lemma run_fit_Inr:
  assumes "run_fit solver calc f u v s = (s', Inr (optimized, fit))"
  shows "calc_signal calc s' = Inr fit \<and>
         (\<exists>h. lsq_loop f (next_x solver (p0 u v) bounds) (max_nfev solver) [] s = (s', Inr h) \<and>
              optimized = best_x solver (p0 u v) bounds h \<and>
              ((h = [] \<and> s' = s) \<or>
               (h \<noteq> [] \<and> (\<exists>s0. f (fst (last h)) s0 = (s', Inr (snd (last h)))))) \<and>
              (h \<noteq> [] \<and> fst (last h) = optimized \<longrightarrow>
                 (\<exists>s0. f optimized s0 = (s', Inr (snd (last h))))))"
proof -
  obtain s1 r1 where loop: "lsq_loop f (next_x solver (p0 u v) bounds) (max_nfev solver) [] s = (s1, r1)"
    by (cases "lsq_loop f (next_x solver (p0 u v) bounds) (max_nfev solver) [] s")
  from assms loop obtain h where r1: "r1 = Inr h"
    by (cases r1) (simp_all add: run_fit_def least_squares_def)
  from assms loop r1 have s1: "s1 = s'" and opt: "optimized = best_x solver (p0 u v) bounds h"
    and fit: "calc_signal calc s' = Inr fit"
    by (auto simp: run_fit_def least_squares_def split: sum.splits)
  from lsq_loop_last [of f _ _ "[]" s s' h] loop r1 s1
  have last: "(h = [] \<and> s' = s) \<or> (h \<noteq> [] \<and> (\<exists>s0. f (fst (last h)) s0 = (s', Inr (snd (last h)))))"
    by simp
  then have same: "h \<noteq> [] \<and> fst (last h) = optimized \<longrightarrow>
      (\<exists>s0. f optimized s0 = (s', Inr (snd (last h))))"
    by auto
  from loop r1 s1 have "lsq_loop f (next_x solver (p0 u v) bounds) (max_nfev solver) [] s = (s', Inr h)"
    by simp
  with opt last same fit show ?thesis by blast
qed

text \<open>
  C7, as the code has it. When the fit returns, the final signal is one more calculation
  on the state the solver left behind, and \<^verbatim>\<open>optimized\<close> is the vector the solver
  returns for the history of its evaluations. That state is the initial state when the
  solver made no evaluation, and otherwise the state left by an evaluation of the
  residual function at the last point of the history; whenever that last point is the
  returned vector, it is a state left by an evaluation at the returned vector.
\<close>

theorem fit_reads_last_evaluation:
  "(fit_regen solver makeSpins calc u v d s = (s1, Inr (opt1, fit1)) \<longrightarrow>
      calc_signal calc s1 = Inr fit1 \<and>
      (\<exists>h. lsq_loop (\<lambda>p. residual_regen makeSpins calc p d) (next_x solver (p0 u v) bounds)
              (max_nfev solver) [] s = (s1, Inr h) \<and>
           opt1 = best_x solver (p0 u v) bounds h \<and>
           ((h = [] \<and> s1 = s) \<or>
            (h \<noteq> [] \<and> (\<exists>s0. residual_regen makeSpins calc (fst (last h)) d s0 = (s1, Inr (snd (last h)))))) \<and>
           (h \<noteq> [] \<and> fst (last h) = opt1 \<longrightarrow>
              (\<exists>s0. residual_regen makeSpins calc opt1 d s0 = (s1, Inr (snd (last h))))))) \<and>
   (fit_mask solver calc u v d s = (s2, Inr (opt2, fit2)) \<longrightarrow>
      calc_signal calc s2 = Inr fit2 \<and>
      (\<exists>h. lsq_loop (\<lambda>p. residual_mask calc p d) (next_x solver (p0 u v) bounds)
              (max_nfev solver) [] s = (s2, Inr h) \<and>
           opt2 = best_x solver (p0 u v) bounds h \<and>
           ((h = [] \<and> s2 = s) \<or>
            (h \<noteq> [] \<and> (\<exists>s0. residual_mask calc (fst (last h)) d s0 = (s2, Inr (snd (last h)))))) \<and>
           (h \<noteq> [] \<and> fst (last h) = opt2 \<longrightarrow>
              (\<exists>s0. residual_mask calc opt2 d s0 = (s2, Inr (snd (last h)))))))"
proof (intro conjI impI)
  assume "fit_regen solver makeSpins calc u v d s = (s1, Inr (opt1, fit1))"
  then have run: "run_fit solver calc (\<lambda>p. residual_regen makeSpins calc p d) u v s = (s1, Inr (opt1, fit1))"
    by (simp add: fit_regen_def)
  from run_fit_Inr [OF run] show "calc_signal calc s1 = Inr fit1"
    by (rule conjunct1)
  from run_fit_Inr [OF run]
  show "\<exists>h. lsq_loop (\<lambda>p. residual_regen makeSpins calc p d) (next_x solver (p0 u v) bounds)
              (max_nfev solver) [] s = (s1, Inr h) \<and>
           opt1 = best_x solver (p0 u v) bounds h \<and>
           ((h = [] \<and> s1 = s) \<or>
            (h \<noteq> [] \<and> (\<exists>s0. residual_regen makeSpins calc (fst (last h)) d s0 = (s1, Inr (snd (last h)))))) \<and>
           (h \<noteq> [] \<and> fst (last h) = opt1 \<longrightarrow>
              (\<exists>s0. residual_regen makeSpins calc opt1 d s0 = (s1, Inr (snd (last h)))))"
    by (rule conjunct2)
next
  assume "fit_mask solver calc u v d s = (s2, Inr (opt2, fit2))"
  then have run: "run_fit solver calc (\<lambda>p. residual_mask calc p d) u v s = (s2, Inr (opt2, fit2))"
    by (simp add: fit_mask_def)
  from run_fit_Inr [OF run] show "calc_signal calc s2 = Inr fit2"
    by (rule conjunct1)
  from run_fit_Inr [OF run]
  show "\<exists>h. lsq_loop (\<lambda>p. residual_mask calc p d) (next_x solver (p0 u v) bounds)
              (max_nfev solver) [] s = (s2, Inr h) \<and>
           opt2 = best_x solver (p0 u v) bounds h \<and>
           ((h = [] \<and> s2 = s) \<or>
            (h \<noteq> [] \<and> (\<exists>s0. residual_mask calc (fst (last h)) d s0 = (s2, Inr (snd (last h)))))) \<and>
           (h \<noteq> [] \<and> fst (last h) = opt2 \<longrightarrow>
              (\<exists>s0. residual_mask calc opt2 d s0 = (s2, Inr (snd (last h)))))"
    by (rule conjunct2)
qed

lemma toy_fit_mask:
  "snd (fit_mask toy_solver toy_calc 0 0 [0.1, 0.1] toy) = Inr ((0.1, 0.1, 0.1, arccos 0, 0), [0.2, 0])"
  by (simp add: fit_mask_def run_fit_def least_squares_def toy_solver_def numeral_3_eq_3 p0_def
        residual_mask_def mask_assign_def Let_def set_scales_def residual_value_def
        calc_signal_def py_index_def np_sub_def toy_calc_def toy_def newsvec_def)

lemma toy_fit_regen:
  "snd (fit_regen toy_solver toy_makeSpins toy_calc 0 0 [0.1, 0.1] toy) =
     Inr ((0.1, 0.1, 0.1, arccos 0, 0), [0.2, 0])"
  by (simp add: fit_regen_def run_fit_def least_squares_def toy_solver_def numeral_3_eq_3 p0_def
        residual_regen_def toy_makeSpins_def Let_def set_scales_def residual_value_def
        calc_signal_def py_index_def np_sub_def toy_calc_def toy_def newsvec_def)

text \<open>
  C7 as the specification words it (the final signal is that of the returned vector)
  does not hold. With the toy solver, in both halves of the notebook: the solver returns
  the start vector, the final signal is \<open>[0.2, 0]\<close>, the signal of the pole it tried last, while
  the signal of the state an evaluation at the returned vector leaves is \<open>[0.1, 0.1]\<close>.
\<close>

theorem fit_not_at_converged:
  "snd (fit_mask toy_solver toy_calc 0 0 [0.1, 0.1] toy) = Inr ((0.1, 0.1, 0.1, arccos 0, 0), [0.2, 0]) \<and>
   calc_signal toy_calc (fst (residual_mask toy_calc (0.1, 0.1, 0.1, arccos 0, 0) [0.1, 0.1]
      (fst (fit_mask toy_solver toy_calc 0 0 [0.1, 0.1] toy)))) = Inr [0.1, 0.1] \<and>
   snd (fit_regen toy_solver toy_makeSpins toy_calc 0 0 [0.1, 0.1] toy) =
     Inr ((0.1, 0.1, 0.1, arccos 0, 0), [0.2, 0]) \<and>
   calc_signal toy_calc (fst (residual_regen toy_makeSpins toy_calc (0.1, 0.1, 0.1, arccos 0, 0) [0.1, 0.1]
      (fst (fit_regen toy_solver toy_makeSpins toy_calc 0 0 [0.1, 0.1] toy)))) = Inr [0.1, 0.1]"
proof -
  have m: "calc_signal toy_calc (fst (residual_mask toy_calc (0.1, 0.1, 0.1, arccos 0, 0) [0.1, 0.1]
      (fst (fit_mask toy_solver toy_calc 0 0 [0.1, 0.1] toy)))) = Inr [0.1, 0.1]"
    by (simp add: fit_mask_def run_fit_def least_squares_def toy_solver_def numeral_3_eq_3 p0_def
        residual_mask_def mask_assign_def Let_def set_scales_def residual_value_def
        calc_signal_def py_index_def np_sub_def toy_calc_def toy_def newsvec_def)
  have r: "calc_signal toy_calc (fst (residual_regen toy_makeSpins toy_calc (0.1, 0.1, 0.1, arccos 0, 0) [0.1, 0.1]
      (fst (fit_regen toy_solver toy_makeSpins toy_calc 0 0 [0.1, 0.1] toy)))) = Inr [0.1, 0.1]"
    by (simp add: fit_regen_def run_fit_def least_squares_def toy_solver_def numeral_3_eq_3 p0_def
        residual_regen_def toy_makeSpins_def Let_def set_scales_def residual_value_def
        calc_signal_def py_index_def np_sub_def toy_calc_def toy_def newsvec_def)
  from m r toy_fit_mask toy_fit_regen show ?thesis by blast
qed


lemma toy_once_fit_mask:
  "snd (fit_mask toy_solver_once toy_calc 0 0 [0.1, 0.1] toy) =
     Inr ((0.1, 0.1, 0.1, arccos 0, 0), [0.1, 0.1])"
  by (simp add: fit_mask_def run_fit_def least_squares_def toy_solver_once_def numeral_3_eq_3 p0_def
        residual_mask_def mask_assign_def Let_def set_scales_def residual_value_def
        calc_signal_def py_index_def np_sub_def toy_calc_def toy_def newsvec_def)

lemma toy_once_loop_mask:
  "lsq_loop (\<lambda>p. residual_mask toy_calc p [0.1, 0.1]) (next_x toy_solver_once (p0 0 0) bounds)
     (max_nfev toy_solver_once) [] toy =
   (fst (fit_mask toy_solver_once toy_calc 0 0 [0.1, 0.1] toy),
    Inr [((0.1, 0.1, 0.1, arccos 0, 0), [0, 0])])"
  by (simp add: fit_mask_def run_fit_def least_squares_def toy_solver_once_def numeral_3_eq_3 p0_def
        residual_mask_def mask_assign_def Let_def set_scales_def residual_value_def
        calc_signal_def py_index_def np_sub_def toy_calc_def toy_def newsvec_def)

text \<open>
  With the first toy solver the final signal is that of the point tried last; with the
  second, whose last evaluation is at the vector it returns, the state the fit leaves is
  the state an evaluation at the returned vector leaves, and the final signal is its signal.
\<close>

theorem fit_reads_last_evaluation_witness:
  "snd (fit_regen toy_solver toy_makeSpins toy_calc 0 0 [0.1, 0.1] toy) =
     Inr ((0.1, 0.1, 0.1, arccos 0, 0), [0.2, 0]) \<and>
   calc_signal toy_calc (fst (fit_regen toy_solver toy_makeSpins toy_calc 0 0 [0.1, 0.1] toy)) =
     Inr [0.2, 0] \<and>
   snd (fit_mask toy_solver toy_calc 0 0 [0.1, 0.1] toy) =
     Inr ((0.1, 0.1, 0.1, arccos 0, 0), [0.2, 0]) \<and>
   calc_signal toy_calc (fst (fit_mask toy_solver toy_calc 0 0 [0.1, 0.1] toy)) = Inr [0.2, 0] \<and>
   snd (fit_mask toy_solver_once toy_calc 0 0 [0.1, 0.1] toy) =
     Inr ((0.1, 0.1, 0.1, arccos 0, 0), [0.1, 0.1]) \<and>
   calc_signal toy_calc (fst (fit_mask toy_solver_once toy_calc 0 0 [0.1, 0.1] toy)) =
     Inr [0.1, 0.1] \<and>
   (\<exists>s0. residual_mask toy_calc (0.1, 0.1, 0.1, arccos 0, 0) [0.1, 0.1] s0 =
      (fst (fit_mask toy_solver_once toy_calc 0 0 [0.1, 0.1] toy), Inr [0, 0]))"
proof -
  let ?x = "(0.1, 0.1, 0.1, arccos 0, 0) :: params"
  let ?S = "fst (fit_mask toy_solver_once toy_calc 0 0 [0.1, 0.1] toy)"
  have a: "fit_regen toy_solver toy_makeSpins toy_calc 0 0 [0.1, 0.1] toy =
      (fst (fit_regen toy_solver toy_makeSpins toy_calc 0 0 [0.1, 0.1] toy),
       Inr (?x, [0.2, 0]))"
    by (rule prod_eqI) (simp_all only: fst_conv snd_conv toy_fit_regen)
  have b: "fit_mask toy_solver toy_calc 0 0 [0.1, 0.1] toy =
      (fst (fit_mask toy_solver toy_calc 0 0 [0.1, 0.1] toy),
       Inr (?x, [0.2, 0]))"
    by (rule prod_eqI) (simp_all only: fst_conv snd_conv toy_fit_mask)
  have c: "fit_mask toy_solver_once toy_calc 0 0 [0.1, 0.1] toy = (?S, Inr (?x, [0.1, 0.1]))"
    by (rule prod_eqI) (simp_all only: fst_conv snd_conv toy_once_fit_mask)
  from fit_reads_last_evaluation
    [of toy_solver toy_makeSpins toy_calc 0 0 "[0.1, 0.1]" toy
       "fst (fit_regen toy_solver toy_makeSpins toy_calc 0 0 [0.1, 0.1] toy)"
       ?x "[0.2, 0]"
       "fst (fit_mask toy_solver toy_calc 0 0 [0.1, 0.1] toy)"
       ?x "[0.2, 0]"] a b
  have first: "calc_signal toy_calc (fst (fit_regen toy_solver toy_makeSpins toy_calc 0 0 [0.1, 0.1] toy)) =
     Inr [0.2, 0]"
    and second: "calc_signal toy_calc (fst (fit_mask toy_solver toy_calc 0 0 [0.1, 0.1] toy)) = Inr [0.2, 0]"
    by blast+
  from fit_reads_last_evaluation
    [of toy_solver_once toy_makeSpins toy_calc 0 0 "[0.1, 0.1]" toy _ _ _ ?S ?x "[0.1, 0.1]"] c
  have sig: "calc_signal toy_calc ?S = Inr [0.1, 0.1]"
    and "\<exists>h. lsq_loop (\<lambda>p. residual_mask toy_calc p [0.1, 0.1]) (next_x toy_solver_once (p0 0 0) bounds)
              (max_nfev toy_solver_once) [] toy = (?S, Inr h) \<and>
           (h \<noteq> [] \<and> fst (last h) = ?x \<longrightarrow>
              (\<exists>s0. residual_mask toy_calc ?x [0.1, 0.1] s0 = (?S, Inr (snd (last h)))))"
    by blast+
  then obtain h where
    loop: "lsq_loop (\<lambda>p. residual_mask toy_calc p [0.1, 0.1]) (next_x toy_solver_once (p0 0 0) bounds)
              (max_nfev toy_solver_once) [] toy = (?S, Inr h)"
    and imp: "h \<noteq> [] \<and> fst (last h) = ?x \<longrightarrow>
              (\<exists>s0. residual_mask toy_calc ?x [0.1, 0.1] s0 = (?S, Inr (snd (last h))))"
    by blast
  from loop have h: "h = [(?x, [0, 0])]"
    by (simp only: toy_once_loop_mask prod.inject sum.inject)
  from imp have third: "\<exists>s0. residual_mask toy_calc ?x [0.1, 0.1] s0 = (?S, Inr [0, 0])"
    by (simp add: h)
  from toy_fit_regen first toy_fit_mask second toy_once_fit_mask sig third show ?thesis
    by (intro conjI)
qed

end
